theory Spec2Isabelle
  imports Main "HOL-Library.Sublist"
begin

section \<open>Python strings\<close>

text \<open>
  A Python \<open>str\<close> is a sequence of Unicode code points; a code point is a natural number.
  \<open>ascii\<close> gives the code points of a literal written in ASCII characters.
\<close>

type_synonym pystr = "nat list"

definition ascii :: "string \<Rightarrow> pystr" where
  "ascii s = map of_char s"

text \<open>
  \<open>str.isspace\<close> for one character: the whitespace characters of Unicode (TAB to CR,
  FS to US, SPACE, NEL, NO-BREAK SPACE, OGHAM SPACE MARK, EN QUAD to HAIR SPACE, LINE and
  PARAGRAPH SEPARATOR, NARROW NO-BREAK SPACE, MEDIUM MATHEMATICAL SPACE, IDEOGRAPHIC
  SPACE). \<open>str.strip()\<close> and \<open>str.split()\<close> without arguments use this set.
\<close>

definition isspace :: "nat \<Rightarrow> bool" where
  "isspace c =
     ((9 \<le> c \<and> c \<le> 13) \<or> (28 \<le> c \<and> c \<le> 32) \<or> c = 0x85 \<or> c = 0xA0 \<or> c = 0x1680
      \<or> (0x2000 \<le> c \<and> c \<le> 0x200A) \<or> c = 0x2028 \<or> c = 0x2029 \<or> c = 0x202F
      \<or> c = 0x205F \<or> c = 0x3000)"

text \<open>
  \<open>str.upper()\<close> replaces every character by its full uppercase mapping, which may be
  several characters long. The mapping is written out for the ASCII characters and for
  the whitespace characters (which have no case); for every other character it is taken
  from the uppercase table \<open>up\<close> of the Unicode database of the Python runtime, a
  parameter of the model.
\<close>

definition upper_char :: "(nat \<Rightarrow> pystr) \<Rightarrow> nat \<Rightarrow> pystr" where
  "upper_char up c =
     (if 97 \<le> c \<and> c \<le> 122 then [c - 32]
      else if c < 128 \<or> isspace c then [c]
      else up c)"

definition upper :: "(nat \<Rightarrow> pystr) \<Rightarrow> pystr \<Rightarrow> pystr" where
  "upper up s = concat (map (upper_char up) s)"

definition strip :: "pystr \<Rightarrow> pystr" where
  "strip s = rev (dropWhile isspace (rev (dropWhile isspace s)))"

text \<open>\<open>s.split()\<close>: the maximal runs of non-whitespace characters, in order.\<close>

function split_ws :: "pystr \<Rightarrow> pystr list" where
  "split_ws s =
     (case dropWhile isspace s of
        [] \<Rightarrow> []
      | c # cs \<Rightarrow> takeWhile (\<lambda>x. \<not> isspace x) (c # cs)
                 # split_ws (dropWhile (\<lambda>x. \<not> isspace x) (c # cs)))"
  by pat_completeness auto
termination
proof (relation "measure length")
  show "wf (measure length)" by simp
next
  fix s :: pystr and c cs
  assume a: "dropWhile isspace s = c # cs"
  have nsp: "\<not> isspace c"
    using a by (metis hd_dropWhile list.sel(1) list.distinct(1))
  have "length (dropWhile (\<lambda>x. \<not> isspace x) (c # cs)) \<le> length cs"
    using nsp by (simp add: length_dropWhile_le)
  also have "length cs < length (c # cs)" by simp
  also have "length (c # cs) \<le> length s"
    using a length_dropWhile_le [of isspace s] by simp
  finally show "(dropWhile (\<lambda>x. \<not> isspace x) (c # cs), s) \<in> measure length" by simp
qed

declare split_ws.simps [simp del]

text \<open>\<open>sep.join(xs)\<close>.\<close>

fun join :: "pystr \<Rightarrow> pystr list \<Rightarrow> pystr" where
  "join sep [] = []"
| "join sep [x] = x"
| "join sep (x # y # ys) = x @ sep @ join sep (y # ys)"

text \<open>\<open>str(n)\<close> for a non-negative integer (the \<open>len(results)\<close> written to the log).\<close>

fun str_nat :: "nat \<Rightarrow> pystr" where
  "str_nat n = (if n < 10 then [48 + n]
                else str_nat (n div 10) @ [48 + n mod 10])"

declare str_nat.simps [simp del]

section \<open>The Statement Gate\<close>

text \<open>
  \<open>re.compile(r"^(SELECT|PRAGMA TABLE_INFO|PRAGMA table_info)", re.IGNORECASE).match(s)\<close>:
  each alternative is a literal, matched at the start of \<open>s\<close> character by character.
  Under \<open>re.IGNORECASE\<close> an ASCII letter of the pattern matches its two cases and, for
  the letters I, S and K, the further characters U+0130 and U+0131 (I), U+017F (S) and
  U+212A (K); any other ASCII character of the pattern matches itself only.
\<close>

definition ignorecase_variants :: "nat \<Rightarrow> nat list" where
  "ignorecase_variants l =
     (let lo = (if 65 \<le> l \<and> l \<le> 90 then l + 32 else l) in
      if 97 \<le> lo \<and> lo \<le> 122 then
        [lo - 32, lo]
        @ (if lo = 105 then [0x130, 0x131] else if lo = 115 then [0x17F]
           else if lo = 107 then [0x212A] else [])
      else [l])"

definition match_literal_ignorecase :: "pystr \<Rightarrow> pystr \<Rightarrow> bool" where
  "match_literal_ignorecase lit s =
     (length lit \<le> length s
      \<and> list_all2 (\<lambda>l c. c \<in> set (ignorecase_variants l)) lit (take (length lit) s))"

definition allowed_pattern_match :: "pystr \<Rightarrow> bool" where
  "allowed_pattern_match s =
     (match_literal_ignorecase (ascii ''SELECT'') s
      \<or> match_literal_ignorecase (ascii ''PRAGMA TABLE_INFO'') s
      \<or> match_literal_ignorecase (ascii ''PRAGMA table_info'') s)"

text \<open>\<open>normalized_sql = generated_sql.upper().strip()\<close>\<close>

definition normalized_sql :: "(nat \<Rightarrow> pystr) \<Rightarrow> pystr \<Rightarrow> pystr" where
  "normalized_sql up generated_sql = strip (upper up generated_sql)"

text \<open>The gate's decision: the statement passes when the pattern matches its normalized form.\<close>

definition gate_accepts :: "(nat \<Rightarrow> pystr) \<Rightarrow> pystr \<Rightarrow> bool" where
  "gate_accepts up generated_sql = allowed_pattern_match (normalized_sql up generated_sql)"

text \<open>
  The characters, other than the ASCII capitals themselves, that \<open>re.IGNORECASE\<close> lets
  stand for a letter of the pattern (which has no K): the lowercase ASCII letters,
  U+0130, U+0131 and U+017F.
\<close>

definition other_case :: "nat \<Rightarrow> bool" where
  "other_case c = ((97 \<le> c \<and> c \<le> 122) \<or> c = 0x130 \<or> c = 0x131 \<or> c = 0x17F)"

definition is_ascii :: "nat \<Rightarrow> bool" where
  "is_ascii c = (c < 128)"

section \<open>External collaborators\<close>

text \<open>
  The database engine is opaque. \<open>cursor.execute(sql)\<close>, with the \<open>fetchall\<close> that follows
  it, raises \<open>sqlite3.Error\<close> (carrying the engine's message), raises an exception of
  another class (a \<open>UnicodeEncodeError\<close> for a statement that holds a lone surrogate,
  say), given by its description, or succeeds; after a success \<open>cursor.description\<close> is
  \<open>None\<close> when the statement produced no result set, and otherwise lists the column names,
  with \<open>cursor.fetchall()\<close> giving the rows. Cell values have an arbitrary type \<open>'v\<close>;
  Python's \<open>str\<close> on them is a parameter \<open>str\<close> of the functions that render them.
\<close>

datatype 'v db_result =
  DbError pystr | DbRaised pystr | NoResultSet | ResultSet "pystr list" "'v list list"


definition fetchall :: "'v db_result \<Rightarrow> 'v list list" where
  "fetchall r = (case r of ResultSet header rows \<Rightarrow> rows | _ \<Rightarrow> [])"

text \<open>
  The completion service is opaque as well. A call of \<open>generate_content\<close> returns a
  response with a text, returns a response whose \<open>text\<close> is \<open>None\<close>, raises \<open>APIError\<close>
  (the one exception class the agent catches), or raises some other exception (a
  transport error, say), given here by its description.
\<close>

datatype completion = Response pystr | NoText | APIError pystr | OtherError pystr

text \<open>A call that the agent survives: it returns a text or raises \<open>APIError\<close>.\<close>

definition answers :: "completion \<Rightarrow> bool" where
  "answers c = (case c of Response t \<Rightarrow> True | APIError e \<Rightarrow> True | _ \<Rightarrow> False)"

text \<open>
  The exceptions that can leave the agent: \<open>AttributeError\<close> comes from \<open>None.strip()\<close>,
  \<open>TypeError\<close> from iterating over a \<open>cursor.description\<close> that is \<open>None\<close>;
  \<open>OtherException\<close> is an exception of the completion call that is not an \<open>APIError\<close>,
  or one of \<open>cursor.execute\<close> that is not an \<open>sqlite3.Error\<close>.
\<close>

datatype exn = IndexError | TypeError | AttributeError | SqliteError pystr | OtherException pystr

datatype level = DEBUG | INFO | WARNING | ERROR

type_synonym log = "(level \<times> pystr) list"

record 'v agent =
  cursor :: "pystr \<Rightarrow> 'v db_result"
  table_names :: "pystr list"

section \<open>Schema description (both scripts)\<close>

text \<open>\<open>[f"{col[1]} ({col[2]})" for col in self.cursor.fetchall()]\<close>\<close>

fun column_texts :: "('v \<Rightarrow> pystr) \<Rightarrow> 'v list list \<Rightarrow> exn + pystr list" where
  "column_texts str [] = Inr []"
| "column_texts str (col # cols) =
     (if length col < 3 then Inl IndexError
      else case column_texts str cols of
             Inl e \<Rightarrow> Inl e
           | Inr texts \<Rightarrow> Inr ((str (col ! 1) @ ascii '' ('' @ str (col ! 2) @ ascii '')'') # texts))"

text \<open>
  The loop of \<open>_get_schema_description\<close>. The second component lists the statements passed
  to \<open>cursor.execute\<close>, in order.
\<close>

fun schema_parts ::
  "('v \<Rightarrow> pystr) \<Rightarrow> (pystr \<Rightarrow> 'v db_result) \<Rightarrow> pystr list \<Rightarrow> (exn + pystr list) \<times> pystr list"
where
  "schema_parts str cur [] = (Inr [], [])"
| "schema_parts str cur (table # tables) =
     (let q = ascii ''PRAGMA table_info('' @ table @ ascii '')'' in
      case cur q of
        DbError e \<Rightarrow> (Inl (SqliteError e), [q])
      | DbRaised e \<Rightarrow> (Inl (OtherException e), [q])
      | r \<Rightarrow>
          (case column_texts str (fetchall r) of
             Inl e \<Rightarrow> (Inl e, [q])
           | Inr columns \<Rightarrow>
               (case schema_parts str cur tables of
                  (Inl e, tr) \<Rightarrow> (Inl e, q # tr)
                | (Inr parts, tr) \<Rightarrow>
                    (Inr ((ascii ''Table **'' @ table @ ascii ''**: ('' @ join (ascii '', '') columns
                           @ ascii '')'') # parts),
                     q # tr))))"

definition get_schema_description ::
  "('v \<Rightarrow> pystr) \<Rightarrow> 'v agent \<Rightarrow> (exn + pystr) \<times> pystr list"
where
  "get_schema_description str ag =
     (case schema_parts str (cursor ag) (table_names ag) of
        (Inl e, tr) \<Rightarrow> (Inl e, tr)
      | (Inr parts, tr) \<Rightarrow> (Inr (join (ascii ''\<newline>'') parts), tr))"

section \<open>main.py\<close>

text \<open>
  The characters that open some log messages, as the code points stored in the source
  file.
\<close>

definition brain_mark :: pystr where
  "brain_mark = [0xF8FF, 0xFC, 0xDF, 0x2020]"

definition think_mark :: pystr where
  "think_mark = [0xF8FF, 0xFC, 0xA7, 0xEE]"

definition hammer_mark :: pystr where
  "hammer_mark = [0xF8FF, 0xFC, 0xEE, 0xAE]"

definition cross_mark :: pystr where
  "cross_mark = [0x201A, 0xF9, 0xE5]"

definition check_mark :: pystr where
  "check_mark = [0x201A, 0xFA, 0xD6]"

definition chart_mark :: pystr where
  "chart_mark = [0xF8FF, 0xFC, 0xEC, 0xE4]"

definition reason_context :: "pystr \<Rightarrow> pystr" where
  "reason_context schema =
     ascii ''\<newline>        **ROLE:** You are the **REASON** component of an SQL agent. \<newline>        **SCHEMA:** ''
     @ schema
     @ ascii ''\<newline>        **TASK:** Explain, in a single sentence, which table(s) contain the necessary data to answer the user request.\<newline>        **OUTPUT FORMAT:** Respond ONLY with the reasoning sentence.\<newline>        ''"

definition think_context :: "pystr" where
  "think_context =
     ascii ''\<newline>        **ROLE:** You are the **THINK** component of an SQL agent.\<newline>        **TASK:** Explain, in a single sentence, the logical steps required to construct the query (e.g., 'I must filter by X and order by Y'). Use the schema and the previous REASON step as context.\<newline>        **OUTPUT FORMAT:** Respond ONLY with the thinking sentence.\<newline>        ''"

definition sql_context :: "pystr" where
  "sql_context =
     ascii ''\<newline>        **ROLE:** You are the **ACTION** component of an SQL agent.\<newline>        **STRICT RULES:** 1. ONLY generate a valid SELECT or PRAGMA statement. 2. REJECT DML/DDL. 3. All SELECTs MUST include LIMIT 100.\<newline>        **TASK:** Generate the final, executable, and constrained SQLite SQL query.\<newline>        **OUTPUT FORMAT:** Respond ONLY with the SQL query text.\<newline>        ''"

text \<open>
  \<open>_llm_call(prompt, context)\<close>: the generated text stripped, or the sentinel when the
  service raises \<open>APIError\<close>; any other exception of the call, and the \<open>AttributeError\<close>
  of \<open>response.text.strip()\<close> when the text is \<open>None\<close>, leave the method. The second
  component is what the call logs.
\<close>

definition main_llm_call :: "(pystr \<Rightarrow> completion) \<Rightarrow> pystr \<Rightarrow> pystr \<Rightarrow> (exn + pystr) \<times> log" where
  "main_llm_call client prompt context =
     (case client (context @ ascii ''\<newline>\<newline>User Request: '' @ prompt) of
        Response t \<Rightarrow> (Inr (strip t), [])
      | NoText \<Rightarrow> (Inl AttributeError, [])
      | APIError e \<Rightarrow>
          (Inr (ascii ''ERROR: API Call Failed''), [(ERROR, ascii ''Gemini API Error: '' @ e)])
      | OtherError e \<Rightarrow> (Inl (OtherException e), []))"

definition main_rejection :: pystr where
  "main_rejection = ascii ''Query rejected. Agent is restricted to SELECT/DESCRIBE only.''"

definition no_results :: pystr where
  "no_results = ascii ''No results found for your query.''"

definition execution_error :: "pystr \<Rightarrow> pystr" where
  "execution_error e = ascii ''Error executing SQL: '' @ e"

text \<open>The table of main.py: header line, separator, one line per row, under a caption.\<close>

definition main_format_table :: "('v \<Rightarrow> pystr) \<Rightarrow> pystr list \<Rightarrow> 'v list list \<Rightarrow> pystr" where
  "main_format_table str header results =
     (let output0 = ascii ''| '' @ join (ascii '' | '') header @ ascii '' |'';
          output = [output0, ascii ''|'' @ replicate (length output0 - 2) 45 @ ascii ''|'']
                   @ map (\<lambda>row. ascii ''| '' @ join (ascii '' | '') (map str row) @ ascii '' |'') results
      in ascii ''\<newline>\<newline>FINAL ANSWER:\<newline>'' @ join (ascii ''\<newline>'') output)"

text \<open>
  Step 4 of \<open>execute_prompt\<close> (validation and execution), from the generated statement on.
  The result is the returned string or the exception that leaves the method; the second
  component lists the statements passed to \<open>cursor.execute\<close>, the third the log records.
\<close>

definition main_execute_and_observe ::
  "(nat \<Rightarrow> pystr) \<Rightarrow> ('v \<Rightarrow> pystr) \<Rightarrow> (pystr \<Rightarrow> 'v db_result) \<Rightarrow> pystr
     \<Rightarrow> (exn + pystr) \<times> pystr list \<times> log"
where
  "main_execute_and_observe up str cur generated_sql =
     (let normalized = normalized_sql up generated_sql in
      if \<not> allowed_pattern_match normalized then
        (case split_ws normalized of
           [] \<Rightarrow> (Inl IndexError, [], [])
         | command # _ \<Rightarrow>
             (Inr main_rejection, [],
              [(ERROR, cross_mark
                       @ ascii '' EXECUTE FAILURE: Security rejection of unauthorized command: ''
                       @ command @ ascii ''.'')]))
      else
        (let validated = (DEBUG, check_mark @ ascii '' VALIDATION SUCCESS: Query is safe. Executing...'') in
         case cur generated_sql of
           DbError e \<Rightarrow>
             (Inr (execution_error e), [generated_sql],
              [validated, (ERROR, cross_mark @ ascii '' OBSERVATION (SQL Error): '' @ e)])
         | DbRaised e \<Rightarrow> (Inl (OtherException e), [generated_sql], [validated])
         | NoResultSet \<Rightarrow> (Inl TypeError, [generated_sql], [validated])
         | ResultSet header results \<Rightarrow>
             (Inr (if results = [] then no_results else main_format_table str header results),
              [generated_sql],
              [validated,
               (INFO, chart_mark @ ascii '' OBSERVATION (DB Result): Executed successfully, ''
                      @ str_nat (length results) @ ascii '' rows returned.'')])))"

text \<open>
  \<open>SqliteAgent.execute_prompt\<close> of main.py. An exception of the schema description or of
  one of the three calls ends the method there.
\<close>

definition main_execute_prompt ::
  "(nat \<Rightarrow> pystr) \<Rightarrow> ('v \<Rightarrow> pystr) \<Rightarrow> 'v agent \<Rightarrow> (pystr \<Rightarrow> completion) \<Rightarrow> pystr
     \<Rightarrow> (exn + pystr) \<times> pystr list \<times> log"
where
  "main_execute_prompt up str ag client user_prompt =
     (let started = [(INFO, ascii ''\<newline>'' @ replicate 50 61),
                     (INFO, ascii ''STARTING ReACT FOR: '' @ user_prompt),
                     (INFO, replicate 50 61)] in
      case get_schema_description str ag of
        (Inl e, tr) \<Rightarrow> (Inl e, tr, started)
      | (Inr schema, tr) \<Rightarrow>
          (case main_llm_call client user_prompt (reason_context schema) of
             (Inl e, log1) \<Rightarrow> (Inl e, tr, started @ log1)
           | (Inr reason, log1) \<Rightarrow>
               (let reasoned = started @ log1
                      @ [(INFO, brain_mark @ ascii '' REASON (Database Look): '' @ reason)] in
                case main_llm_call client user_prompt think_context of
                  (Inl e, log2) \<Rightarrow> (Inl e, tr, reasoned @ log2)
                | (Inr think, log2) \<Rightarrow>
                    (let thought = reasoned @ log2
                           @ [(INFO, think_mark @ ascii '' THINK (Query Logic): '' @ think)] in
                     case main_llm_call client user_prompt sql_context of
                       (Inl e, log3) \<Rightarrow> (Inl e, tr, thought @ log3)
                     | (Inr generated_sql, log3) \<Rightarrow>
                         (let (result, tr', log4) =
                                main_execute_and_observe up str (cursor ag) generated_sql
                          in (result, tr @ tr',
                              thought @ log3
                              @ [(WARNING, hammer_mark @ ascii '' ACT (Generated SQL): ''
                                           @ generated_sql)]
                              @ log4))))))"

text \<open>The three calls of a cycle of main.py all return a text or raise \<open>APIError\<close>.\<close>

definition main_calls_answer :: "(pystr \<Rightarrow> completion) \<Rightarrow> pystr \<Rightarrow> pystr \<Rightarrow> bool" where
  "main_calls_answer client user_prompt schema =
     (answers (client (reason_context schema @ ascii ''\<newline>\<newline>User Request: '' @ user_prompt))
      \<and> answers (client (think_context @ ascii ''\<newline>\<newline>User Request: '' @ user_prompt))
      \<and> answers (client (sql_context @ ascii ''\<newline>\<newline>User Request: '' @ user_prompt)))"

section \<open>sample.py\<close>

text \<open>
  sample.py writes to the console with \<open>print\<close>; the console is not modelled. Its
  \<open>execute_prompt\<close> returns a string or, for a schema inspection, the list of rows.
\<close>

datatype 'v pyval = Str pystr | RowList "'v list list"



definition sample_rejection :: pystr where
  "sample_rejection =
     ascii ''Query rejected. This agent is restricted to SELECT and DESCRIBE TABLE operations only.''"

definition sample_format_table :: "('v \<Rightarrow> pystr) \<Rightarrow> pystr list \<Rightarrow> 'v list list \<Rightarrow> pystr" where
  "sample_format_table str header results =
     (let output0 = join (ascii '' | '') header;
          output = [output0, replicate (length output0) 45]
                   @ map (\<lambda>row. join (ascii '' | '') (map str row)) results
      in join (ascii ''\<newline>'') output)"

text \<open>Steps 2 and 3 of \<open>execute_prompt\<close> (validation and final execution).\<close>

definition sample_validate_and_execute ::
  "(nat \<Rightarrow> pystr) \<Rightarrow> ('v \<Rightarrow> pystr) \<Rightarrow> (pystr \<Rightarrow> 'v db_result) \<Rightarrow> pystr
     \<Rightarrow> (exn + 'v pyval) \<times> pystr list"
where
  "sample_validate_and_execute up str cur generated_sql =
     (let normalized = normalized_sql up generated_sql in
      if \<not> allowed_pattern_match normalized then (Inr (Str sample_rejection), [])
      else
        (case cur generated_sql of
           DbError e \<Rightarrow> (Inr (Str (execution_error e)), [generated_sql])
         | DbRaised e \<Rightarrow> (Inl (OtherException e), [generated_sql])
         | NoResultSet \<Rightarrow> (Inl TypeError, [generated_sql])
         | ResultSet header results \<Rightarrow>
             (if prefix (ascii ''PRAGMA'') normalized then Inr (RowList results)
              else if results = [] then Inr (Str no_results)
              else Inr (Str (sample_format_table str header results)),
              [generated_sql])))"


section \<open>Re-parsing a rendered table\<close>

text \<open>
  Modelled from the spec: the repository renders tables and has no code that reads one
  back; the spec's round-trip property speaks of "re-parsing a rendered table". The
  parsers of this section undo the two renderings line by line: the text is split at
  line feeds, the first line gives the column names, the second (the separator) is
  dropped, and each further line gives one row; a line is split at \<open>" | "\<close>. For main.py
  the caption is removed first and each line loses its frame \<open>"| "\<close> ... \<open>" |"\<close>.
\<close>

text \<open>Modelled from the spec: splitting at a one-character separator, as \<open>s.split(c)\<close>.\<close>

fun split_char :: "nat \<Rightarrow> pystr \<Rightarrow> pystr list" where
  "split_char c [] = [[]]"
| "split_char c (x # xs) =
     (if x = c then [] # split_char c xs
      else case split_char c xs of
             l # ls \<Rightarrow> (x # l) # ls
           | [] \<Rightarrow> [[x]])"

text \<open>
  Modelled from the spec: splitting a line at \<open>" | "\<close> (the code points 32, 124, 32), as
  \<open>s.split(" | ")\<close>; the separator is looked for from the left, without overlaps.
\<close>

function split_bar :: "pystr \<Rightarrow> pystr list" where
  "split_bar s =
     (if s = [] then [[]]
      else if take 3 s = [32, 124, 32] then [] # split_bar (drop 3 s)
      else case split_bar (tl s) of
             l # ls \<Rightarrow> (hd s # l) # ls
           | [] \<Rightarrow> [[hd s]])"
  by pat_completeness auto
termination
  by (relation "measure length") (auto simp: take_eq_Nil)

declare split_bar.simps [simp del]

text \<open>Modelled from the spec: removing the frame of a line of main.py's table.\<close>

definition unframe :: "pystr \<Rightarrow> pystr option" where
  "unframe l =
     (if 4 \<le> length l \<and> take 2 l = [124, 32] \<and> drop (length l - 2) l = [32, 124]
      then Some (take (length l - 4) (drop 2 l)) else None)"

text \<open>Modelled from the spec: the cells of one line of main.py's table.\<close>

definition main_parse_row :: "pystr \<Rightarrow> pystr list option" where
  "main_parse_row l = map_option split_bar (unframe l)"

text \<open>Modelled from the spec: the re-parser for the table text of main.py.\<close>

definition main_parse_table :: "pystr \<Rightarrow> (pystr list \<times> pystr list list) option" where
  "main_parse_table t =
     (let caption = ascii ''\<newline>\<newline>FINAL ANSWER:\<newline>'' in
      if prefix caption t then
        (case split_char 10 (drop (length caption) t) of
           h # sep # rows \<Rightarrow>
             (case main_parse_row h of
                None \<Rightarrow> None
              | Some header \<Rightarrow>
                  (case those (map main_parse_row rows) of
                     None \<Rightarrow> None
                   | Some cells \<Rightarrow> Some (header, cells)))
         | _ \<Rightarrow> None)
      else None)"

text \<open>Modelled from the spec: the re-parser for the table text of sample.py.\<close>

definition sample_parse_table :: "pystr \<Rightarrow> (pystr list \<times> pystr list list) option" where
  "sample_parse_table t =
     (case split_char 10 t of
        h # sep # rows \<Rightarrow> Some (split_bar h, map split_bar rows)
      | _ \<Rightarrow> None)"

text \<open>A cell that can be read back: it holds neither a vertical bar nor a line feed.\<close>

definition plain_cell :: "pystr \<Rightarrow> bool" where
  "plain_cell s = (124 \<notin> set s \<and> 10 \<notin> set s)"

text \<open>
  A result set that can be read back: at least one column and one row, every row as long
  as the header, and every column name and rendered value a plain cell.
\<close>

definition readable_table :: "('v \<Rightarrow> pystr) \<Rightarrow> pystr list \<Rightarrow> 'v list list \<Rightarrow> bool" where
  "readable_table str header results =
     (header \<noteq> [] \<and> results \<noteq> [] \<and> list_all plain_cell header
      \<and> list_all (\<lambda>row. length row = length header \<and> list_all (\<lambda>v. plain_cell (str v)) row) results)"

section \<open>A worked database\<close>

text \<open>
  Values of the demo database: NULL, integers and text (\<open>str(None)\<close> is \<open>None\<close>).
\<close>

datatype sql_value = Null | Integer int | Text pystr

definition str_value :: "sql_value \<Rightarrow> pystr" where
  "str_value v =
     (case v of
        Null \<Rightarrow> ascii ''None''
      | Integer i \<Rightarrow> (if i < 0 then ascii ''-'' @ str_nat (nat (- i)) else str_nat (nat i))
      | Text s \<Rightarrow> s)"

text \<open>
  The answers of the seeded demo database (\<open>_setup_database\<close>) to a few statements, for
  the worked examples; anything else is a syntax error here.
\<close>

definition demo_cursor :: "pystr \<Rightarrow> sql_value db_result" where
  "demo_cursor sql =
     (if sql = ascii ''PRAGMA table_info(Employees)'' then
        ResultSet (map ascii [''cid'', ''name'', ''type'', ''notnull'', ''dflt_value'', ''pk''])
          [[Integer 0, Text (ascii ''employee_id''), Text (ascii ''INTEGER''), Integer 0, Null, Integer 1],
           [Integer 1, Text (ascii ''name''), Text (ascii ''TEXT''), Integer 1, Null, Integer 0],
           [Integer 2, Text (ascii ''department''), Text (ascii ''TEXT''), Integer 0, Null, Integer 0],
           [Integer 3, Text (ascii ''salary''), Text (ascii ''REAL''), Integer 0, Null, Integer 0]]
      else if sql = ascii ''PRAGMA table_info(Departments)'' then
        ResultSet (map ascii [''cid'', ''name'', ''type'', ''notnull'', ''dflt_value'', ''pk''])
          [[Integer 0, Text (ascii ''dept_id''), Text (ascii ''INTEGER''), Integer 0, Null, Integer 1],
           [Integer 1, Text (ascii ''name''), Text (ascii ''TEXT''), Integer 1, Null, Integer 0]]
      else if sql = ascii ''select dept_id, name from Departments limit 100'' then
        ResultSet (map ascii [''dept_id'', ''name''])
          [[Integer 1, Text (ascii ''Sales'')], [Integer 2, Text (ascii ''IT'')],
           [Integer 3, Text (ascii ''HR'')]]
      else if sql = ascii ''select name from Departments where dept_id = 9 limit 100'' then
        ResultSet [ascii ''name''] []
      else if sql = ascii ''select nme from Departments limit 100'' then
        DbError (ascii ''no such column: nme'')
      else DbError (ascii ''near syntax error''))"

definition demo_agent :: "sql_value agent" where
  "demo_agent = \<lparr>cursor = demo_cursor, table_names = map ascii [''Employees'', ''Departments'']\<rparr>"

text \<open>
  An uppercase table for the worked examples: it leaves every character it is asked
  about unchanged, as Python's table does for U+0130, the one such character the
  examples use.
\<close>

definition unchanged_case :: "nat \<Rightarrow> pystr" where
  "unchanged_case c = [c]"






definition blank_client :: "pystr \<Rightarrow> completion" where
  "blank_client contents = Response [0xA0, 32]"




section \<open>Evaluating the gate on concrete statements\<close>

lemmas gate_eval = ascii_def isspace_def upper_def upper_char_def strip_def normalized_sql_def
  gate_accepts_def allowed_pattern_match_def match_literal_ignorecase_def ignorecase_variants_def
  unchanged_case_def is_ascii_def other_case_def Let_def

section \<open>Characters and normalization\<close>

lemma upper_char_space:
  assumes "isspace c"
  shows "upper_char up c = [c]"
  using assms unfolding upper_char_def isspace_def by auto



lemma upper_append: "upper up (s @ t) = upper up s @ upper up t"
  by (simp add: upper_def)


lemma variants_self: "l \<in> set (ignorecase_variants l)"
  unfolding ignorecase_variants_def Let_def by auto


lemma prefix_match_literal:
  assumes "prefix lit s"
  shows "match_literal_ignorecase lit s"
proof -
  obtain r where s: "s = lit @ r" using assms by (auto simp: prefix_def)
  have "list_all2 (\<lambda>l c. c \<in> set (ignorecase_variants l)) lit lit"
    by (simp add: list_all2_conv_all_nth variants_self)
  then show ?thesis unfolding match_literal_ignorecase_def s by simp
qed



lemma allowed_pattern_match_prefix:
  assumes "prefix (ascii ''SELECT'') s \<or> prefix (ascii ''PRAGMA TABLE_INFO'') s"
  shows "allowed_pattern_match s"
  using assms prefix_match_literal unfolding allowed_pattern_match_def by blast




section \<open>The allow-list\<close>




section \<open>Tokens, blank statements and the trace of executed statements\<close>

lemma split_ws_Nil: "split_ws [] = []"
  by (simp add: split_ws.simps)

lemma upper_blank:
  assumes "\<forall>c\<in>set S. isspace c"
  shows "upper up S = S"
  using assms by (induction S) (simp_all add: upper_def upper_char_space)

lemma strip_blank:
  assumes "\<forall>c\<in>set S. isspace c"
  shows "strip S = []"
proof -
  have "dropWhile isspace S = []" using assms by (simp only: dropWhile_eq_Nil_conv)
  then show ?thesis unfolding strip_def by (simp del: dropWhile_eq_Nil_conv)
qed

lemma blank_normalized:
  assumes "\<forall>c\<in>set S. isspace c"
  shows "normalized_sql up S = []"
  unfolding normalized_sql_def upper_blank [OF assms] by (rule strip_blank [OF assms])

lemma not_allowed_Nil: "\<not> allowed_pattern_match []"
  by (simp add: allowed_pattern_match_def match_literal_ignorecase_def ascii_def)






lemma main_executed:
  "fst (snd (main_execute_and_observe up str cur S)) = (if gate_accepts up S then [S] else [])"
  unfolding main_execute_and_observe_def gate_accepts_def Let_def
  by (simp split: list.splits db_result.splits)

lemma sample_executed:
  "snd (sample_validate_and_execute up str cur S) = (if gate_accepts up S then [S] else [])"
  unfolding sample_validate_and_execute_def gate_accepts_def Let_def
  by (simp split: db_result.splits)

lemma schema_ok_obtain:
  assumes "\<not> isl (fst (get_schema_description str ag))"
  obtains schema tr where "get_schema_description str ag = (Inr schema, tr)"
    and "schema = projr (fst (get_schema_description str ag))"
    and "tr = snd (get_schema_description str ag)"
  using assms by (cases "get_schema_description str ag"; cases "fst (get_schema_description str ag)") auto

lemma main_llm_call_answers:
  assumes "answers (client (context @ ascii ''\<newline>\<newline>User Request: '' @ prompt))"
  shows "\<exists>t l. main_llm_call client prompt context = (Inr t, l)"
  using assms unfolding answers_def main_llm_call_def by (simp split: completion.splits)


lemma main_execute_prompt_result:
  assumes g: "get_schema_description str ag = (Inr schema, tr)"
      and a: "main_calls_answer client user_prompt schema"
  shows "fst (main_execute_prompt up str ag client user_prompt) =
           fst (main_execute_and_observe up str (cursor ag)
                  (projr (fst (main_llm_call client user_prompt sql_context))))"
    and "fst (snd (main_execute_prompt up str ag client user_prompt)) =
           tr @ fst (snd (main_execute_and_observe up str (cursor ag)
                  (projr (fst (main_llm_call client user_prompt sql_context)))))"
proof -
  obtain t1 l1 where 1: "main_llm_call client user_prompt (reason_context schema) = (Inr t1, l1)"
    using a main_llm_call_answers unfolding main_calls_answer_def by blast
  obtain t2 l2 where 2: "main_llm_call client user_prompt think_context = (Inr t2, l2)"
    using a main_llm_call_answers unfolding main_calls_answer_def by blast
  obtain t3 l3 where 3: "main_llm_call client user_prompt sql_context = (Inr t3, l3)"
    using a main_llm_call_answers unfolding main_calls_answer_def by blast
  show "fst (main_execute_prompt up str ag client user_prompt) =
           fst (main_execute_and_observe up str (cursor ag)
                  (projr (fst (main_llm_call client user_prompt sql_context))))"
    unfolding main_execute_prompt_def Let_def by (simp add: g 1 2 3 split_beta)
  show "fst (snd (main_execute_prompt up str ag client user_prompt)) =
           tr @ fst (snd (main_execute_and_observe up str (cursor ag)
                  (projr (fst (main_llm_call client user_prompt sql_context)))))"
    unfolding main_execute_prompt_def Let_def by (simp add: g 1 2 3 split_beta)
qed







lemma select_not_pragma:
  assumes "prefix (ascii ''SELECT'') n"
  shows "\<not> prefix (ascii ''PRAGMA'') n"
  using assms by (auto simp: prefix_def ascii_def)

lemma main_format_table_hd:
  "hd (main_format_table str h rs) = 10"
  unfolding main_format_table_def Let_def by (simp add: ascii_def)

lemma sample_format_table_newline:
  "10 \<in> set (sample_format_table str h rs)"
  unfolding sample_format_table_def Let_def by (simp add: ascii_def)

lemma no_results_distinct:
  "no_results \<noteq> main_format_table str h rs"
  "no_results \<noteq> sample_format_table str h rs"
  "no_results \<noteq> execution_error e"
proof -
  show "no_results \<noteq> main_format_table str h rs"
  proof
    assume "no_results = main_format_table str h rs"
    then have "hd no_results = 10"
      using main_format_table_hd [of str h rs] by simp
    then show False by (simp add: no_results_def ascii_def)
  qed
  have "10 \<notin> set no_results" by (simp add: no_results_def ascii_def)
  then show "no_results \<noteq> sample_format_table str h rs"
    using sample_format_table_newline [of str h rs] by metis
  show "no_results \<noteq> execution_error e"
    by (simp add: no_results_def execution_error_def ascii_def)
qed


lemma demo_schema:
  "\<not> isl (fst (get_schema_description str_value demo_agent))"
  "snd (get_schema_description str_value demo_agent)
     = [ascii ''PRAGMA table_info(Employees)'', ascii ''PRAGMA table_info(Departments)'']"
  by (simp_all add: get_schema_description_def demo_agent_def demo_cursor_def fetchall_def
        ascii_def Let_def)


section \<open>Gate and execution\<close>



text \<open>
  Claim C4. For an accepted statement, the text handed to \<open>cursor.execute\<close> is the
  generated statement itself, character for character, not its normalized form (the
  worked example is a statement that differs from its normalized form).
\<close>

theorem executes_original_text:
  "gate_accepts up S \<Longrightarrow>
     fst (snd (main_execute_and_observe up str cur S)) = [S]
     \<and> snd (sample_validate_and_execute up str cur S) = [S]"
  by (simp add: main_executed sample_executed)

theorem executes_original_text_witness:
  "gate_accepts unchanged_case (ascii ''  select dept_id from Departments '')
   \<and> normalized_sql unchanged_case (ascii ''  select dept_id from Departments '')
       = ascii ''SELECT DEPT_ID FROM DEPARTMENTS''
   \<and> fst (snd (main_execute_and_observe unchanged_case str_value demo_cursor
             (ascii ''  select dept_id from Departments '')))
       = [ascii ''  select dept_id from Departments '']
   \<and> snd (sample_validate_and_execute unchanged_case str_value demo_cursor
             (ascii ''  select dept_id from Departments ''))
       = [ascii ''  select dept_id from Departments '']"
proof -
  have a: "gate_accepts unchanged_case (ascii ''  select dept_id from Departments '')"
    by (simp add: gate_eval)
  have b: "normalized_sql unchanged_case (ascii ''  select dept_id from Departments '')
             = ascii ''SELECT DEPT_ID FROM DEPARTMENTS''"
    by (simp add: gate_eval)
  show ?thesis
    using a b
      executes_original_text [where cur = demo_cursor and str = str_value and up = unchanged_case
        and S = "ascii ''  select dept_id from Departments ''"]
    by blast
qed

text \<open>
  Claim C5. An accepted SELECT statement that executes successfully and yields no rows
  makes both scripts return the no-results message; that message is never the text of a
  formatted table and never an execution-error message.
\<close>

theorem empty_result_is_no_results:
  assumes "prefix (ascii ''SELECT'') (normalized_sql up S)" and "cur S = ResultSet header []"
  shows "fst (main_execute_and_observe up str cur S) = Inr no_results
         \<and> fst (sample_validate_and_execute up str cur S) = Inr (Str no_results)
         \<and> (\<forall>h rs. no_results \<noteq> main_format_table str h rs)
         \<and> (\<forall>h rs. no_results \<noteq> sample_format_table str h rs)
         \<and> (\<forall>e. no_results \<noteq> execution_error e)"
proof -
  have g: "allowed_pattern_match (normalized_sql up S)"
    using assms(1) by (intro allowed_pattern_match_prefix) simp
  have p: "\<not> prefix (ascii ''PRAGMA'') (normalized_sql up S)"
    using assms(1) by (rule select_not_pragma)
  have "fst (main_execute_and_observe up str cur S) = Inr no_results"
    unfolding main_execute_and_observe_def Let_def using g assms(2) by simp
  moreover have "fst (sample_validate_and_execute up str cur S) = Inr (Str no_results)"
    unfolding sample_validate_and_execute_def Let_def using g p assms(2) by simp
  ultimately show ?thesis using no_results_distinct by blast
qed

theorem empty_result_is_no_results_witness:
  "prefix (ascii ''SELECT'')
     (normalized_sql unchanged_case (ascii ''select name from Departments where dept_id = 9 limit 100''))
   \<and> demo_cursor (ascii ''select name from Departments where dept_id = 9 limit 100'')
       = ResultSet [ascii ''name''] []
   \<and> fst (main_execute_and_observe unchanged_case str_value demo_cursor
            (ascii ''select name from Departments where dept_id = 9 limit 100''))
       = Inr (ascii ''No results found for your query.'')
   \<and> fst (sample_validate_and_execute unchanged_case str_value demo_cursor
            (ascii ''select name from Departments where dept_id = 9 limit 100''))
       = Inr (Str (ascii ''No results found for your query.''))"
proof -
  have a: "prefix (ascii ''SELECT'')
     (normalized_sql unchanged_case (ascii ''select name from Departments where dept_id = 9 limit 100''))"
    by (simp add: gate_eval)
  have b: "demo_cursor (ascii ''select name from Departments where dept_id = 9 limit 100'')
             = ResultSet [ascii ''name''] []"
    by (simp add: demo_cursor_def ascii_def)
  show ?thesis
    using a b
      empty_result_is_no_results [where cur = demo_cursor and str = str_value
        and up = unchanged_case
        and S = "ascii ''select name from Departments where dept_id = 9 limit 100''"
        and header = "[ascii ''name'']"]
    unfolding no_results_def by blast
qed

text \<open>
  Claim C7. When the engine raises an error on an accepted statement, both scripts return
  (and do not raise) the message \<open>Error executing SQL: \<close> followed by the engine's own
  error text.
\<close>

theorem engine_error_is_returned:
  assumes "gate_accepts up S" and "cur S = DbError e"
  shows "fst (main_execute_and_observe up str cur S) = Inr (ascii ''Error executing SQL: '' @ e)
         \<and> fst (sample_validate_and_execute up str cur S)
             = Inr (Str (ascii ''Error executing SQL: '' @ e))"
  using assms
  unfolding main_execute_and_observe_def sample_validate_and_execute_def gate_accepts_def
    Let_def execution_error_def
  by simp

theorem engine_error_is_returned_witness:
  "gate_accepts unchanged_case (ascii ''select nme from Departments limit 100'')
   \<and> demo_cursor (ascii ''select nme from Departments limit 100'')
       = DbError (ascii ''no such column: nme'')
   \<and> fst (main_execute_and_observe unchanged_case str_value demo_cursor
            (ascii ''select nme from Departments limit 100''))
       = Inr (ascii ''Error executing SQL: '' @ ascii ''no such column: nme'')
   \<and> fst (sample_validate_and_execute unchanged_case str_value demo_cursor
            (ascii ''select nme from Departments limit 100''))
       = Inr (Str (ascii ''Error executing SQL: '' @ ascii ''no such column: nme''))"
proof -
  have a: "gate_accepts unchanged_case (ascii ''select nme from Departments limit 100'')"
    by (simp add: gate_eval)
  have b: "demo_cursor (ascii ''select nme from Departments limit 100'')
             = DbError (ascii ''no such column: nme'')"
    by (simp add: demo_cursor_def ascii_def)
  show ?thesis
    using a b
      engine_error_is_returned [where cur = demo_cursor and str = str_value
        and up = unchanged_case
        and S = "ascii ''select nme from Departments limit 100''"
        and e = "ascii ''no such column: nme''"]
    by blast
qed

section \<open>Rejections and failures of the completion service\<close>

lemma main_blank:
  assumes "\<forall>c\<in>set S. isspace c"
  shows "main_execute_and_observe up str cur S = (Inl IndexError, [], [])"
  unfolding main_execute_and_observe_def Let_def
  by (simp add: blank_normalized [OF assms] not_allowed_Nil split_ws_Nil)






text \<open>
  Claim C10. When the candidate statement is empty or holds only whitespace, its
  normalized form has no token, so the rejection path of main.py fails on
  \<open>normalized_sql.split()[0]\<close>: \<open>execute_prompt\<close> ends with an \<open>IndexError\<close>, executes
  nothing and returns no rejection message.
\<close>

theorem blank_statement_raises_index_error:
  assumes "list_all isspace S"
  shows "split_ws (normalized_sql up S) = []
         \<and> main_execute_and_observe up str cur S = (Inl IndexError, [], [])
         \<and> (\<not> isl (fst (get_schema_description str ag))
              \<and> main_calls_answer client user_prompt (projr (fst (get_schema_description str ag)))
              \<and> client (sql_context @ ascii ''\<newline>\<newline>User Request: '' @ user_prompt) = Response S
              \<longrightarrow> fst (main_execute_prompt up str ag client user_prompt) = Inl IndexError)"
proof -
  have blank: "\<forall>c\<in>set S. isspace c" using assms by (simp add: list_all_iff)
  have 1: "split_ws (normalized_sql up S) = []"
    by (simp add: blank_normalized [OF blank] split_ws_Nil)
  have 2: "main_execute_and_observe up str cur S = (Inl IndexError, [], [])"
    using blank by (rule main_blank)
  have 3: "fst (main_execute_prompt up str ag client user_prompt) = Inl IndexError"
    if ok: "\<not> isl (fst (get_schema_description str ag))"
      and a: "main_calls_answer client user_prompt (projr (fst (get_schema_description str ag)))"
      and r: "client (sql_context @ ascii ''\<newline>\<newline>User Request: '' @ user_prompt) = Response S"
  proof -
    obtain schema tr where g: "get_schema_description str ag = (Inr schema, tr)"
      and sch: "schema = projr (fst (get_schema_description str ag))"
      using ok by (rule schema_ok_obtain)
    have a': "main_calls_answer client user_prompt schema" using a sch by simp
    have "projr (fst (main_llm_call client user_prompt sql_context)) = []"
      using r strip_blank [OF blank] by (simp add: main_llm_call_def)
    then show ?thesis
      using main_execute_prompt_result(1) [OF g a', of up]
        main_blank [of "[]" up str "cursor ag"] by simp
  qed
  show ?thesis using 1 2 3 by blast
qed

theorem blank_statement_raises_index_error_witness:
  "list_all isspace [0xA0, 32]
   \<and> main_execute_and_observe unchanged_case str_value demo_cursor [0xA0, 32]
       = (Inl IndexError, [], [])
   \<and> \<not> isl (fst (get_schema_description str_value demo_agent))
   \<and> main_calls_answer blank_client (ascii ''List the departments'')
        (projr (fst (get_schema_description str_value demo_agent)))
   \<and> blank_client (sql_context @ ascii ''\<newline>\<newline>User Request: '' @ ascii ''List the departments'')
       = Response [0xA0, 32]
   \<and> fst (main_execute_prompt unchanged_case str_value demo_agent blank_client
            (ascii ''List the departments''))
       = Inl IndexError"
proof -
  have a: "list_all isspace [0xA0, 32]" by (simp add: isspace_def)
  note b = demo_schema(1)
  have c: "blank_client (sql_context @ ascii ''\<newline>\<newline>User Request: '' @ ascii ''List the departments'')
             = Response [0xA0, 32]"
    by (simp add: blank_client_def)
  have d: "main_calls_answer blank_client (ascii ''List the departments'')
             (projr (fst (get_schema_description str_value demo_agent)))"
    by (simp add: main_calls_answer_def answers_def blank_client_def)
  note t = blank_statement_raises_index_error [where S = "[0xA0, 32]" and str = str_value
        and cur = demo_cursor and ag = demo_agent and client = blank_client
        and up = unchanged_case and user_prompt = "ascii ''List the departments''", OF a]
  have 1: "main_execute_and_observe unchanged_case str_value demo_cursor [0xA0, 32]
       = (Inl IndexError, [], [])" using t by blast
  have 2: "fst (main_execute_prompt unchanged_case str_value demo_agent blank_client
            (ascii ''List the departments'')) = Inl IndexError"
    using t b c d by blast
  show ?thesis using a 1 b d c 2 by (intro conjI)
qed







section \<open>What the public operation returns\<close>






section \<open>Rendering a table and reading it back\<close>

lemma split_bar_Nil: "split_bar [] = [[]]"
  by (simp add: split_bar.simps)

lemma split_bar_sep: "split_bar ([32, 124, 32] @ rest) = [] # split_bar rest"
  by (subst split_bar.simps) simp

lemma split_bar_Cons:
  assumes "take 3 (c # s) \<noteq> [32, 124, 32]"
  shows "split_bar (c # s) = (case split_bar s of l # ls \<Rightarrow> (c # l) # ls | [] \<Rightarrow> [[c]])"
  by (subst split_bar.simps) (simp only: assms if_False list.sel list.distinct)

lemma take3_bar:
  fixes s :: pystr
  assumes "take 3 s = [32, 124, 32]"
  shows "\<exists>a r. s = a # 124 # r"
proof -
  obtain a s1 where s: "s = a # s1" using assms by (cases s) auto
  obtain b s2 where s1: "s1 = b # s2" using assms s by (cases s1) auto
  show ?thesis using assms s s1 by (auto simp: numeral_3_eq_3)
qed

lemma split_bar_plain:
  assumes "124 \<notin> set x"
  shows "split_bar x = [x]"
  using assms
proof (induction x)
  case Nil
  then show ?case by (simp add: split_bar_Nil)
next
  case (Cons c cs)
  have "take 3 (c # cs) \<noteq> [32, 124, 32]"
    using take3_bar [of "c # cs"] Cons.prems by auto
  then show ?case using Cons by (simp add: split_bar_Cons)
qed

lemma split_bar_append:
  assumes "124 \<notin> set x"
  shows "split_bar (x @ [32, 124, 32] @ rest) = x # split_bar rest"
  using assms
proof (induction x)
  case Nil
  then show ?case using split_bar_sep [of rest] by simp
next
  case (Cons c cs)
  have "take 3 (c # cs @ [32, 124, 32] @ rest) \<noteq> [32, 124, 32]"
  proof
    assume "take 3 (c # cs @ [32, 124, 32] @ rest) = [32, 124, 32]"
    then obtain a r where "c # cs @ [32, 124, 32] @ rest = a # 124 # r"
      using take3_bar by blast
    then have "hd (cs @ [32, 124, 32] @ rest) = 124" by simp
    then show False using Cons.prems by (cases cs) auto
  qed
  then have "split_bar (c # cs @ [32, 124, 32] @ rest) =
               (case split_bar (cs @ [32, 124, 32] @ rest) of l # ls \<Rightarrow> (c # l) # ls | [] \<Rightarrow> [[c]])"
    by (rule split_bar_Cons)
  then show ?case using Cons by simp
qed

lemma split_bar_join:
  assumes "cells \<noteq> []" and "\<forall>c\<in>set cells. 124 \<notin> set c"
  shows "split_bar (join [32, 124, 32] cells) = cells"
  using assms
proof (induction "[32, 124, 32] :: pystr" cells rule: join.induct)
  case 1
  then show ?case by simp
next
  case (2 x)
  then show ?case by (simp add: split_bar_plain)
next
  case (3 x y ys)
  then have "split_bar (x @ [32, 124, 32] @ join [32, 124, 32] (y # ys)) = x # split_bar (join [32, 124, 32] (y # ys))"
    by (intro split_bar_append) simp
  then show ?case using 3 by simp
qed

lemma split_char_not_Nil: "split_char c s \<noteq> []"
  by (induction s) (auto split: list.splits)

lemma split_char_plain:
  assumes "c \<notin> set x"
  shows "split_char c x = [x]"
  using assms by (induction x) auto

lemma split_char_append:
  assumes "c \<notin> set x"
  shows "split_char c (x @ c # rest) = x # split_char c rest"
  using assms by (induction x) (auto split: list.splits simp: split_char_not_Nil)

lemma split_char_join:
  assumes "lines \<noteq> []" and "\<forall>l\<in>set lines. c \<notin> set l"
  shows "split_char c (join [c] lines) = lines"
  using assms
proof (induction "[c]" lines rule: join.induct)
  case 1
  then show ?case by simp
next
  case (2 x)
  then show ?case by (simp add: split_char_plain)
next
  case (3 x y ys)
  then show ?case by (simp add: split_char_append)
qed

lemma set_join: "set (join sep xs) \<subseteq> set sep \<union> \<Union> (set ` set xs)"
  by (induction sep xs rule: join.induct) auto

lemma unframe_frame: "unframe ([124, 32] @ s @ [32, 124]) = Some s"
  by (simp add: unframe_def)

lemma main_parse_row_frame:
  assumes "cells \<noteq> []" and "\<forall>c\<in>set cells. 124 \<notin> set c"
  shows "main_parse_row ([124, 32] @ join [32, 124, 32] cells @ [32, 124]) = Some cells"
  unfolding main_parse_row_def unframe_frame using split_bar_join [OF assms] by simp

lemma join_plain:
  assumes "\<forall>c\<in>set cells. plain_cell c"
  shows "10 \<notin> set (join [32, 124, 32] cells)"
proof
  assume "10 \<in> set (join [32, 124, 32] cells)"
  then have "10 \<in> set [32, 124, 32] \<union> \<Union> (set ` set cells)"
    using set_join [of "[32, 124, 32]" cells] by blast
  then show False using assms by (auto simp: plain_cell_def)
qed

lemma readable_header:
  assumes "readable_table str header results"
  shows "header \<noteq> []" and "\<forall>c\<in>set header. plain_cell c"
    and "\<forall>c\<in>set header. 124 \<notin> set c"
  using assms by (auto simp: readable_table_def list_all_iff plain_cell_def)

lemma readable_row:
  assumes "readable_table str header results" and "row \<in> set results"
  shows "map str row \<noteq> []" and "\<forall>c\<in>set (map str row). plain_cell c"
    and "\<forall>c\<in>set (map str row). 124 \<notin> set c"
  using assms by (auto simp: readable_table_def list_all_iff plain_cell_def)

lemma main_parse_rows:
  assumes "readable_table str header results" and "set rows \<subseteq> set results"
  shows "those (map main_parse_row
                  (map (\<lambda>row. [124, 32] @ join [32, 124, 32] (map str row) @ [32, 124]) rows))
           = Some (map (map str) rows)"
  using assms(2)
proof (induction rows)
  case Nil
  then show ?case by simp
next
  case (Cons row rows)
  then have "row \<in> set results" by simp
  then have "main_parse_row ([124, 32] @ join [32, 124, 32] (map str row) @ [32, 124])
               = Some (map str row)"
    using readable_row(1,3) [OF assms(1)] by (intro main_parse_row_frame) blast+
  then show ?case using Cons by simp
qed

lemma sample_parse_rows:
  assumes "readable_table str header results" and "set rows \<subseteq> set results"
  shows "map split_bar (map (\<lambda>row. join [32, 124, 32] (map str row)) rows) = map (map str) rows"
  using assms(2)
proof (induction rows)
  case Nil
  then show ?case by simp
next
  case (Cons row rows)
  then have "row \<in> set results" by simp
  then have "split_bar (join [32, 124, 32] (map str row)) = map str row"
    using readable_row(1,3) [OF assms(1)] by (intro split_bar_join) blast+
  then show ?case using Cons by simp
qed

lemma main_round_trip:
  assumes r: "readable_table str header results"
  shows "main_parse_table (main_format_table str header results) = Some (header, map (map str) results)"
proof -
  define o0 where "o0 = [124, 32] @ join [32, 124, 32] header @ [32, 124::nat]"
  define dashes where "dashes = [124] @ replicate (length o0 - 2) 45 @ [124::nat]"
  define rowlines where
    "rowlines = map (\<lambda>row. [124, 32] @ join [32, 124, 32] (map str row) @ [32, 124::nat]) results"
  define caption where "caption = ascii ''\<newline>\<newline>FINAL ANSWER:\<newline>''"
  have lits: "ascii ''| '' = [124, 32]" "ascii '' | '' = [32, 124, 32]" "ascii '' |'' = [32, 124]"
    "ascii ''|'' = [124]" "ascii ''\<newline>'' = [10]"
    by (simp_all add: ascii_def)
  have fmt: "main_format_table str header results
               = caption @ join [10] (o0 # dashes # rowlines)"
    unfolding main_format_table_def Let_def lits o0_def dashes_def rowlines_def caption_def
    by (simp del: join.simps)
  have n0: "10 \<notin> set o0"
    unfolding o0_def using join_plain [OF readable_header(2) [OF r]] by simp
  have n1: "10 \<notin> set dashes"
    unfolding dashes_def by auto
  have n2: "\<forall>l\<in>set rowlines. 10 \<notin> set l"
    unfolding rowlines_def using join_plain [OF readable_row(2) [OF r]] by auto
  have sp: "split_char 10 (join [10] (o0 # dashes # rowlines)) = o0 # dashes # rowlines"
    using n0 n1 n2 by (intro split_char_join) auto
  have h: "main_parse_row o0 = Some header"
    unfolding o0_def using readable_header(1,3) [OF r] by (intro main_parse_row_frame)
  have rs: "those (map main_parse_row rowlines) = Some (map (map str) results)"
    unfolding rowlines_def using main_parse_rows [OF r, of results] by simp
  have "main_parse_table (caption @ join [10] (o0 # dashes # rowlines))
          = Some (header, map (map str) results)"
    unfolding main_parse_table_def Let_def caption_def [symmetric]
    by (simp add: sp h rs del: join.simps)
  then show ?thesis by (simp only: fmt)
qed

lemma sample_round_trip:
  assumes r: "readable_table str header results"
  shows "sample_parse_table (sample_format_table str header results) = Some (header, map (map str) results)"
proof -
  define o0 where "o0 = join [32, 124, 32::nat] header"
  define dashes where "dashes = replicate (length o0) (45::nat)"
  define rowlines where "rowlines = map (\<lambda>row. join [32, 124, 32::nat] (map str row)) results"
  have lits: "ascii '' | '' = [32, 124, 32]" "ascii ''\<newline>'' = [10]"
    by (simp_all add: ascii_def)
  have fmt: "sample_format_table str header results = join [10] (o0 # dashes # rowlines)"
    unfolding sample_format_table_def Let_def lits o0_def dashes_def rowlines_def
    by (simp del: join.simps)
  have n0: "10 \<notin> set o0"
    unfolding o0_def using join_plain [OF readable_header(2) [OF r]] by simp
  have n1: "10 \<notin> set dashes"
    unfolding dashes_def by auto
  have n2: "\<forall>l\<in>set rowlines. 10 \<notin> set l"
    unfolding rowlines_def using join_plain [OF readable_row(2) [OF r]] by auto
  have sp: "split_char 10 (join [10] (o0 # dashes # rowlines)) = o0 # dashes # rowlines"
    using n0 n1 n2 by (intro split_char_join) auto
  have h: "split_bar o0 = header"
    unfolding o0_def using readable_header(1,3) [OF r] by (intro split_bar_join)
  have rs: "map split_bar rowlines = map (map str) results"
    unfolding rowlines_def using sample_parse_rows [OF r, of results] by simp
  show ?thesis
    unfolding fmt sample_parse_table_def by (simp add: sp h rs del: join.simps)
qed

text \<open>
  Claim C8, as amended. For a result set with at least one row and one column whose
  column names and rendered values contain neither a vertical bar nor a line feed,
  rendering the table (in either script) and reading the text back gives the column
  names and the rendered values again.
\<close>

theorem table_round_trip:
  assumes "readable_table str header results"
  shows "main_parse_table (main_format_table str header results)
           = Some (header, map (map str) results)
         \<and> sample_parse_table (sample_format_table str header results)
           = Some (header, map (map str) results)"
  using main_round_trip [OF assms] sample_round_trip [OF assms] by simp

theorem table_round_trip_witness:
  "readable_table str_value [ascii ''dept_id'', ascii ''name'']
     [[Integer 1, Text (ascii ''Sales'')], [Integer 2, Text (ascii ''IT'')]]
   \<and> main_parse_table (main_format_table str_value [ascii ''dept_id'', ascii ''name'']
        [[Integer 1, Text (ascii ''Sales'')], [Integer 2, Text (ascii ''IT'')]])
       = Some ([ascii ''dept_id'', ascii ''name''],
               [[ascii ''1'', ascii ''Sales''], [ascii ''2'', ascii ''IT'']])
   \<and> sample_parse_table (sample_format_table str_value [ascii ''dept_id'', ascii ''name'']
        [[Integer 1, Text (ascii ''Sales'')], [Integer 2, Text (ascii ''IT'')]])
       = Some ([ascii ''dept_id'', ascii ''name''],
               [[ascii ''1'', ascii ''Sales''], [ascii ''2'', ascii ''IT'']])"
proof -
  have a: "readable_table str_value [ascii ''dept_id'', ascii ''name'']
             [[Integer 1, Text (ascii ''Sales'')], [Integer 2, Text (ascii ''IT'')]]"
    by (simp add: readable_table_def plain_cell_def str_value_def str_nat.simps ascii_def)
  have b: "map (map str_value) [[Integer 1, Text (ascii ''Sales'')], [Integer 2, Text (ascii ''IT'')]]
             = [[ascii ''1'', ascii ''Sales''], [ascii ''2'', ascii ''IT'']]"
    by (simp add: str_value_def str_nat.simps ascii_def)
  show ?thesis
    using a table_round_trip [OF a] unfolding b by blast
qed

text \<open>
  Claim C8 as stated fails: the one-column result set with the column \<open>a | b\<close> and the
  value \<open>x | y\<close> is rendered to the same text as a two-column result set, so no way of
  reading the text back can recover both; the parser returns the two-column one.
\<close>

theorem table_round_trip_counterexample:
  "main_format_table str_value [ascii ''a | b''] [[Text (ascii ''x | y'')]]
     = main_format_table str_value [ascii ''a'', ascii ''b''] [[Text (ascii ''x''), Text (ascii ''y'')]]
   \<and> main_parse_table (main_format_table str_value [ascii ''a | b''] [[Text (ascii ''x | y'')]])
     = Some ([ascii ''a'', ascii ''b''], [[ascii ''x'', ascii ''y'']])
   \<and> main_parse_table (main_format_table str_value [ascii ''a | b''] [[Text (ascii ''x | y'')]])
     \<noteq> Some ([ascii ''a | b''], [[str_value (Text (ascii ''x | y''))]])
   \<and> sample_format_table str_value [ascii ''a | b''] [[Text (ascii ''x | y'')]]
     = sample_format_table str_value [ascii ''a'', ascii ''b''] [[Text (ascii ''x''), Text (ascii ''y'')]]
   \<and> sample_parse_table (sample_format_table str_value [ascii ''a | b''] [[Text (ascii ''x | y'')]])
     = Some ([ascii ''a'', ascii ''b''], [[ascii ''x'', ascii ''y'']])
   \<and> sample_parse_table (sample_format_table str_value [ascii ''a | b''] [[Text (ascii ''x | y'')]])
     \<noteq> Some ([ascii ''a | b''], [[str_value (Text (ascii ''x | y''))]])"
proof -
  have 1: "main_format_table str_value [ascii ''a | b''] [[Text (ascii ''x | y'')]]
     = main_format_table str_value [ascii ''a'', ascii ''b''] [[Text (ascii ''x''), Text (ascii ''y'')]]"
    by (simp add: main_format_table_def str_value_def ascii_def)
  have r: "readable_table str_value [ascii ''a'', ascii ''b''] [[Text (ascii ''x''), Text (ascii ''y'')]]"
    by (simp add: readable_table_def plain_cell_def str_value_def ascii_def)
  have m: "map (map str_value) [[Text (ascii ''x''), Text (ascii ''y'')]] = [[ascii ''x'', ascii ''y'']]"
    by (simp add: str_value_def)
  have 2: "main_parse_table (main_format_table str_value [ascii ''a | b''] [[Text (ascii ''x | y'')]])
     = Some ([ascii ''a'', ascii ''b''], [[ascii ''x'', ascii ''y'']])"
    unfolding 1 main_round_trip [OF r] m by (rule refl)
  have 3: "sample_format_table str_value [ascii ''a | b''] [[Text (ascii ''x | y'')]]
     = sample_format_table str_value [ascii ''a'', ascii ''b''] [[Text (ascii ''x''), Text (ascii ''y'')]]"
    by (simp add: sample_format_table_def str_value_def ascii_def)
  have 4: "sample_parse_table (sample_format_table str_value [ascii ''a | b''] [[Text (ascii ''x | y'')]])
     = Some ([ascii ''a'', ascii ''b''], [[ascii ''x'', ascii ''y'']])"
    unfolding 3 sample_round_trip [OF r] m by (rule refl)
  have 5: "main_parse_table (main_format_table str_value [ascii ''a | b''] [[Text (ascii ''x | y'')]])
     \<noteq> Some ([ascii ''a | b''], [[str_value (Text (ascii ''x | y''))]])"
    unfolding 2 by (simp add: ascii_def)
  have 6: "sample_parse_table (sample_format_table str_value [ascii ''a | b''] [[Text (ascii ''x | y'')]])
     \<noteq> Some ([ascii ''a | b''], [[str_value (Text (ascii ''x | y''))]])"
    unfolding 4 by (simp add: ascii_def)
  show ?thesis using 1 2 5 3 4 6 by (intro conjI)
qed

end
